theory Spec2Isabelle
  imports Main "HOL-Library.Sublist"
begin

section \<open>Exceptions\<close>

text \<open>
  The two scripts raise and catch Python exceptions. The handlers of the source tell
  three kinds apart: \<^verbatim>\<open>subprocess.CalledProcessError\<close> (caught in
  \<^verbatim>\<open>convert_blazeface.main\<close>), \<^verbatim>\<open>KeyboardInterrupt\<close> (a
  \<^verbatim>\<open>BaseException\<close> that is no \<^verbatim>\<open>Exception\<close>) and every other
  \<^verbatim>\<open>Exception\<close>. The shape checks of the torch layers raise
  \<^verbatim>\<open>RuntimeError\<close>, \<^verbatim>\<open>ValueError\<close> or \<^verbatim>\<open>IndexError\<close>; the
  reason is kept as a value so that a failing forward pass says where it failed.
\<close>

datatype torch_error =
    ExpectedConvInput            \<comment> \<open>conv2d: input is neither 3-D (unbatched) nor 4-D\<close>
  | ChannelMismatch nat nat      \<comment> \<open>expected channels, channels of the input\<close>
  | KernelTooLarge               \<comment> \<open>kernel larger than the padded input\<close>
  | Expected4D                   \<comment> \<open>BatchNorm2d: input is not 4-D\<close>
  | OneValuePerChannel           \<comment> \<open>BatchNorm2d in training mode on one value per channel\<close>
  | AmbiguousView                \<comment> \<open>view(0, -1)\<close>
  | MatShapes nat nat            \<comment> \<open>Linear: features of the input, in_features of the layer\<close>

datatype py_exception =
    CalledProcessError "string list" int   \<comment> \<open>command, return code\<close>
  | RuntimeError torch_error
  | ValueError torch_error
  | IndexError
  | OtherException                         \<comment> \<open>any other subclass of Exception, e.g. FileNotFoundError\<close>
  | KeyboardInterrupt

text \<open>\<^verbatim>\<open>isinstance(e, Exception)\<close>\<close>

fun is_Exception :: "py_exception \<Rightarrow> bool" where
  "is_Exception KeyboardInterrupt = False"
| "is_Exception _ = True"

text \<open>\<^verbatim>\<open>isinstance(e, subprocess.CalledProcessError)\<close>\<close>

fun is_CalledProcessError :: "py_exception \<Rightarrow> bool" where
  "is_CalledProcessError (CalledProcessError _ _) = True"
| "is_CalledProcessError _ = False"


section \<open>The torch layers, on tensor shapes\<close>

text \<open>
  A tensor is modelled by its shape: the values are floating-point numbers and no claim
  depends on them. Each layer of \<^verbatim>\<open>torch.nn\<close> used by
  \<^verbatim>\<open>convert_minifasnet.py\<close> is a record of the hyperparameters the source passes to
  its constructor, and its forward function maps the shape of the input to the shape of
  the output or to the exception torch raises on a shape it does not accept.
\<close>

type_synonym shape = "nat list"

record Conv2d =
  in_channels :: nat
  out_channels :: nat
  kernel_size :: "nat \<times> nat"
  stride :: "nat \<times> nat"
  padding :: "nat \<times> nat"
  groups :: nat

text \<open>An integer argument stands for the same value in both spatial dimensions.\<close>

definition pair :: "nat \<Rightarrow> nat \<times> nat" where
  "pair n = (n, n)"

text \<open>
  Output extent of a convolution with dilation 1 along one spatial dimension:
  \<open>\<lfloor>(i + 2p - (k - 1) - 1) / s\<rfloor> + 1\<close>, defined when the kernel fits
  into the padded input.
\<close>

definition conv_out :: "nat \<Rightarrow> nat \<Rightarrow> nat \<Rightarrow> nat \<Rightarrow> nat" where
  "conv_out i k s p = (i + 2 * p - k) div s + 1"

definition conv_spatial :: "Conv2d \<Rightarrow> nat \<Rightarrow> nat \<Rightarrow> nat \<Rightarrow> py_exception + nat \<times> nat \<times> nat" where
  "conv_spatial c ch h w =
     (if ch \<noteq> in_channels c then Inl (RuntimeError (ChannelMismatch (in_channels c) ch))
      else if h + 2 * fst (padding c) < fst (kernel_size c)
              \<or> w + 2 * snd (padding c) < snd (kernel_size c)
      then Inl (RuntimeError KernelTooLarge)
      else Inr (out_channels c,
                conv_out h (fst (kernel_size c)) (fst (stride c)) (fst (padding c)),
                conv_out w (snd (kernel_size c)) (snd (stride c)) (snd (padding c))))"

fun Conv2d_forward :: "Conv2d \<Rightarrow> shape \<Rightarrow> py_exception + shape" where
  "Conv2d_forward c [n, ch, h, w] =
     (case conv_spatial c ch h w of
        Inl e \<Rightarrow> Inl e
      | Inr (co, ho, wo) \<Rightarrow> Inr [n, co, ho, wo])"
| "Conv2d_forward c [ch, h, w] =
     (case conv_spatial c ch h w of
        Inl e \<Rightarrow> Inl e
      | Inr (co, ho, wo) \<Rightarrow> Inr [co, ho, wo])"
| "Conv2d_forward c _ = Inl (RuntimeError ExpectedConvInput)"

record BatchNorm2d =
  num_features :: nat

text \<open>
  \<^verbatim>\<open>BatchNorm2d\<close> accepts 4-D input only; in training mode it refuses a batch with a
  single value per channel; the per-channel statistics have \<open>num_features\<close> entries.
\<close>

fun BatchNorm2d_forward :: "bool \<Rightarrow> BatchNorm2d \<Rightarrow> shape \<Rightarrow> py_exception + shape" where
  "BatchNorm2d_forward training b [n, ch, h, w] =
     (if training \<and> n * h * w = 1 then Inl (ValueError OneValuePerChannel)
      else if ch \<noteq> num_features b
      then Inl (RuntimeError (ChannelMismatch (num_features b) ch))
      else Inr [n, ch, h, w])"
| "BatchNorm2d_forward training b _ = Inl (ValueError Expected4D)"

text \<open>\<^verbatim>\<open>ReLU\<close> is elementwise.\<close>

definition ReLU_forward :: "shape \<Rightarrow> py_exception + shape" where
  "ReLU_forward x = Inr x"

record Linear =
  in_features :: nat
  out_features :: nat

fun Linear_forward :: "Linear \<Rightarrow> shape \<Rightarrow> py_exception + shape" where
  "Linear_forward l [] = Inl (RuntimeError (MatShapes 0 (in_features l)))"
| "Linear_forward l x =
     (if last x \<noteq> in_features l then Inl (RuntimeError (MatShapes (last x) (in_features l)))
      else Inr (butlast x @ [out_features l]))"

text \<open>\<^verbatim>\<open>x.view(x.size(0), -1)\<close>: the first dimension is kept, the rest is flattened.\<close>

fun view_flatten :: "shape \<Rightarrow> py_exception + shape" where
  "view_flatten [] = Inl IndexError"
| "view_flatten (n # rest) =
     (if n = 0 then Inl (RuntimeError AmbiguousView) else Inr [n, prod_list rest])"


section \<open>MiniFASNetV2\<close>

text \<open>
  The class of \<^verbatim>\<open>convert_minifasnet.py\<close>: one field per submodule assigned in
  \<^verbatim>\<open>__init__\<close>, and the training flag every \<^verbatim>\<open>torch.nn.Module\<close> carries
  (set at construction, cleared by \<^verbatim>\<open>model.eval()\<close>).
\<close>

record MiniFASNetV2 =
  conv1 :: Conv2d
  bn1 :: BatchNorm2d
  conv2_dw :: Conv2d
  bn2_dw :: BatchNorm2d
  conv2_sep :: Conv2d
  bn2_sep :: BatchNorm2d
  conv3_dw :: Conv2d
  bn3_dw :: BatchNorm2d
  conv3_sep :: Conv2d
  bn3_sep :: BatchNorm2d
  conv4_dw :: Conv2d
  bn4_dw :: BatchNorm2d
  conv4_sep :: Conv2d
  bn4_sep :: BatchNorm2d
  conv5_dw :: Conv2d
  bn5_dw :: BatchNorm2d
  conv5_sep :: Conv2d
  bn5_sep :: BatchNorm2d
  conv6_dw :: Conv2d
  bn6_dw :: BatchNorm2d
  conv6_flatten :: Conv2d
  fc :: Linear
  training :: bool

text \<open>\<^verbatim>\<open>torch.nn.Conv2d(i, o, kernel_size=k, stride=s, padding=p, groups=g, bias=False)\<close>\<close>

definition mk_Conv2d :: "nat \<Rightarrow> nat \<Rightarrow> nat \<times> nat \<Rightarrow> nat \<Rightarrow> nat \<Rightarrow> nat \<Rightarrow> Conv2d" where
  "mk_Conv2d i o' k s p g =
     \<lparr>in_channels = i, out_channels = o', kernel_size = k,
      stride = pair s, padding = pair p, groups = g\<rparr>"

definition mk_BatchNorm2d :: "nat \<Rightarrow> BatchNorm2d" where
  "mk_BatchNorm2d n = \<lparr>num_features = n\<rparr>"

text \<open>
  \<^verbatim>\<open>MiniFASNetV2.__init__(self, embedding_size=128, conv6_kernel=(5, 5))\<close>,
  lines 15 to 47 of the source, in the order of the assignments.
\<close>

definition MiniFASNetV2_init :: "nat \<Rightarrow> nat \<times> nat \<Rightarrow> MiniFASNetV2" where
  "MiniFASNetV2_init embedding_size conv6_kernel =
     \<lparr>conv1 = mk_Conv2d 3 32 (pair 3) 2 1 1,
      bn1 = mk_BatchNorm2d 32,
      conv2_dw = mk_Conv2d 32 32 (pair 3) 1 1 32,
      bn2_dw = mk_BatchNorm2d 32,
      conv2_sep = mk_Conv2d 32 64 (pair 1) 1 0 1,
      bn2_sep = mk_BatchNorm2d 64,
      conv3_dw = mk_Conv2d 64 64 (pair 3) 2 1 64,
      bn3_dw = mk_BatchNorm2d 64,
      conv3_sep = mk_Conv2d 64 64 (pair 1) 1 0 1,
      bn3_sep = mk_BatchNorm2d 64,
      conv4_dw = mk_Conv2d 64 64 (pair 3) 1 1 64,
      bn4_dw = mk_BatchNorm2d 64,
      conv4_sep = mk_Conv2d 64 128 (pair 1) 1 0 1,
      bn4_sep = mk_BatchNorm2d 128,
      conv5_dw = mk_Conv2d 128 128 (pair 3) 2 1 128,
      bn5_dw = mk_BatchNorm2d 128,
      conv5_sep = mk_Conv2d 128 128 (pair 1) 1 0 1,
      bn5_sep = mk_BatchNorm2d 128,
      conv6_dw = mk_Conv2d 128 128 conv6_kernel 1 0 128,
      bn6_dw = mk_BatchNorm2d 128,
      conv6_flatten = mk_Conv2d 128 embedding_size (pair 1) 1 0 1,
      fc = \<lparr>in_features = embedding_size, out_features = 2\<rparr>,
      training = True\<rparr>"

text \<open>\<^verbatim>\<open>model.eval()\<close>\<close>

definition eval_mode :: "MiniFASNetV2 \<Rightarrow> MiniFASNetV2" where
  "eval_mode m = m\<lparr>training := False\<rparr>"

text \<open>
  The submodules that \<^verbatim>\<open>forward\<close> can name as \<^verbatim>\<open>self.<name>\<close>, and the call
  \<^verbatim>\<open>self.<name>(x)\<close>.
\<close>

datatype member =
    Conv1 | Bn1
  | Conv2_dw | Bn2_dw | Conv2_sep | Bn2_sep
  | Conv3_dw | Bn3_dw | Conv3_sep | Bn3_sep
  | Conv4_dw | Bn4_dw | Conv4_sep | Bn4_sep
  | Conv5_dw | Bn5_dw | Conv5_sep | Bn5_sep
  | Conv6_dw | Bn6_dw | Conv6_flatten
  | Fc | Relu

fun call :: "MiniFASNetV2 \<Rightarrow> member \<Rightarrow> shape \<Rightarrow> py_exception + shape" where
  "call m Conv1 x = Conv2d_forward (conv1 m) x"
| "call m Bn1 x = BatchNorm2d_forward (training m) (bn1 m) x"
| "call m Conv2_dw x = Conv2d_forward (conv2_dw m) x"
| "call m Bn2_dw x = BatchNorm2d_forward (training m) (bn2_dw m) x"
| "call m Conv2_sep x = Conv2d_forward (conv2_sep m) x"
| "call m Bn2_sep x = BatchNorm2d_forward (training m) (bn2_sep m) x"
| "call m Conv3_dw x = Conv2d_forward (conv3_dw m) x"
| "call m Bn3_dw x = BatchNorm2d_forward (training m) (bn3_dw m) x"
| "call m Conv3_sep x = Conv2d_forward (conv3_sep m) x"
| "call m Bn3_sep x = BatchNorm2d_forward (training m) (bn3_sep m) x"
| "call m Conv4_dw x = Conv2d_forward (conv4_dw m) x"
| "call m Bn4_dw x = BatchNorm2d_forward (training m) (bn4_dw m) x"
| "call m Conv4_sep x = Conv2d_forward (conv4_sep m) x"
| "call m Bn4_sep x = BatchNorm2d_forward (training m) (bn4_sep m) x"
| "call m Conv5_dw x = Conv2d_forward (conv5_dw m) x"
| "call m Bn5_dw x = BatchNorm2d_forward (training m) (bn5_dw m) x"
| "call m Conv5_sep x = Conv2d_forward (conv5_sep m) x"
| "call m Bn5_sep x = BatchNorm2d_forward (training m) (bn5_sep m) x"
| "call m Conv6_dw x = Conv2d_forward (conv6_dw m) x"
| "call m Bn6_dw x = BatchNorm2d_forward (training m) (bn6_dw m) x"
| "call m Conv6_flatten x = Conv2d_forward (conv6_flatten m) x"
| "call m Fc x = Linear_forward (fc m) x"
| "call m Relu x = ReLU_forward x"

text \<open>
  \<^verbatim>\<open>forward\<close> is a straight-line program on the one variable \<^verbatim>\<open>x\<close>: every
  statement replaces \<^verbatim>\<open>x\<close> by the result of a submodule call or of the
  \<^verbatim>\<open>view\<close>. The nested calls of a source line are listed innermost first, the order
  in which Python evaluates them.
\<close>

datatype stmt = Call member | View

definition forward_body :: "stmt list" where
  "forward_body =
     [Call Conv1, Call Bn1, Call Relu,
      Call Conv2_dw, Call Bn2_dw, Call Relu,
      Call Conv2_sep, Call Bn2_sep, Call Relu,
      Call Conv3_dw, Call Bn3_dw, Call Relu,
      Call Conv3_sep, Call Bn3_sep, Call Relu,
      Call Conv4_dw, Call Bn4_dw, Call Relu,
      Call Conv4_sep, Call Bn5_sep, Call Relu,
      Call Conv5_dw, Call Bn5_dw, Call Relu,
      Call Conv5_sep, Call Bn5_sep, Call Relu,
      Call Conv6_dw, Call Bn6_dw, Call Relu,
      Call Conv6_flatten,
      View,
      Call Fc]"

fun step :: "MiniFASNetV2 \<Rightarrow> stmt \<Rightarrow> shape \<Rightarrow> py_exception + shape" where
  "step m (Call f) x = call m f x"
| "step m View x = view_flatten x"

text \<open>
  Running the statements in order. The first component of the result is the log of the
  statements entered, each with the shape it received and what it returned or raised;
  the second is the final shape, or the exception that ended the run.
\<close>

type_synonym entry = "stmt \<times> shape \<times> (py_exception + shape)"

fun exec :: "MiniFASNetV2 \<Rightarrow> stmt list \<Rightarrow> shape \<Rightarrow> entry list \<times> (py_exception + shape)" where
  "exec m [] x = ([], Inr x)"
| "exec m (s # ss) x =
     (case step m s x of
        Inl e \<Rightarrow> ([(s, x, Inl e)], Inl e)
      | Inr y \<Rightarrow> (case exec m ss y of (log, r) \<Rightarrow> ((s, x, Inr y) # log, r)))"

definition forward :: "MiniFASNetV2 \<Rightarrow> shape \<Rightarrow> py_exception + shape" where
  "forward m x = snd (exec m forward_body x)"

definition forward_log :: "MiniFASNetV2 \<Rightarrow> shape \<Rightarrow> entry list" where
  "forward_log m x = fst (exec m forward_body x)"


section \<open>What the scripts do to the outside world\<close>

text \<open>
  Every line the scripts print, by what it says. The source prints decorated text; no
  claim depends on the wording, so a line is identified by its role and carries the
  values interpolated into it.
\<close>

datatype message =
    Rule                          \<comment> \<open>\<^verbatim>\<open>"=" * 60\<close>\<close>
  | Blank                         \<comment> \<open>\<^verbatim>\<open>print()\<close>\<close>
  | Title_blazeface
  | Input_is string
  | Output_is string
  | Downloading
  | Downloaded
  | Converting
  | Success_blazeface
  | Location string
  | Conversion_failed
  | Detail py_exception           \<comment> \<open>the caught exception, indented\<close>
  | Title_minifasnet
  | Creating_model
  | Model_created
  | Exporting
  | Success_minifasnet
  | Note_architecture_only
  | Note_pretrained_weights
  | Note_weights_url
  | Export_failed py_exception
  | Cancelled_by_user
  | Error py_exception

text \<open>The keyword arguments of the call of \<^verbatim>\<open>torch.onnx.export\<close>.\<close>

record export_call =
  exp_model :: MiniFASNetV2
  exp_args :: shape
  exp_f :: string
  opset_version :: nat
  input_names :: "string list"
  output_names :: "string list"
  dynamic_axes :: "(string \<times> (nat \<times> string) list) list"

datatype event =
    Print message
  | SubprocessRun "string list"
  | OnnxExport export_call

text \<open>The commands launched, in order, and the exports requested, in order.\<close>

fun launched :: "event list \<Rightarrow> string list list" where
  "launched [] = []"
| "launched (SubprocessRun argv # es) = argv # launched es"
| "launched (_ # es) = launched es"


text \<open>
  What a run leaves behind: the events in order, and either the value returned or the
  exception that propagated.
\<close>

type_synonym 'a outcome = "event list \<times> (py_exception + 'a)"


section \<open>Procedure A: \<^verbatim>\<open>convert_blazeface.py\<close>\<close>

text \<open>
  The script sees the operating system through \<^verbatim>\<open>os.path.exists\<close> and
  \<^verbatim>\<open>subprocess.run\<close>. The state of the machine is a value \<open>'w\<close>; launching a
  command changes it and either ends with a return code or fails in Python (the
  executable is missing, the user interrupts the wait).
\<close>

datatype proc_result = Exited int | Failed py_exception

record 'w os_iface =
  path_exists :: "'w \<Rightarrow> string \<Rightarrow> bool"
  run_process :: "'w \<Rightarrow> string list \<Rightarrow> proc_result \<times> 'w"

text \<open>\<^verbatim>\<open>subprocess.run(argv, check=True)\<close>\<close>

definition subprocess_run :: "'w os_iface \<Rightarrow> string list \<Rightarrow> 'w \<Rightarrow> (py_exception + unit) \<times> 'w" where
  "subprocess_run os argv w =
     (case run_process os w argv of
        (Exited rc, w') \<Rightarrow>
          (if rc \<noteq> 0 then Inl (CalledProcessError argv rc) else Inr (), w')
      | (Failed e, w') \<Rightarrow> (Inl e, w'))"

definition tflite_path :: string where
  "tflite_path = ''blaze_face_short_range.tflite''"

definition onnx_path :: string where
  "onnx_path = ''../public/models/onnx/blazeface.onnx''"

definition model_url :: string where
  "model_url = ''https://storage.googleapis.com/mediapipe-models/face_detector/blaze_face_short_range/float16/1/blaze_face_short_range.tflite''"

definition curl_cmd :: "string list" where
  "curl_cmd = [''curl'', ''-L'', ''-o'', tflite_path, model_url]"

definition convert_cmd :: "string list" where
  "convert_cmd =
     [''python'', ''-m'', ''tf2onnx.convert'',
      ''--tflite'', tflite_path,
      ''--output'', onnx_path,
      ''--opset'', ''13'']"

text \<open>Lines 12 to 23: the banner.\<close>

definition banner :: "event list" where
  "banner =
     [Print Rule, Print Title_blazeface, Print Rule, Print Blank,
      Print (Input_is tflite_path), Print (Output_is onnx_path), Print Blank]"

text \<open>
  Lines 35 to 56, step 2: the \<^verbatim>\<open>try\<close> around the converter. Only
  \<^verbatim>\<open>CalledProcessError\<close> is handled; any other exception leaves the function.
\<close>

definition convert_step :: "'w os_iface \<Rightarrow> 'w \<Rightarrow> int outcome \<times> 'w" where
  "convert_step os w =
     (case subprocess_run os convert_cmd w of
        (Inr _, w') \<Rightarrow>
          (([Print Converting, SubprocessRun convert_cmd,
             Print Blank, Print Rule, Print Success_blazeface,
             Print (Location onnx_path), Print Rule], Inr 0), w')
      | (Inl e, w') \<Rightarrow>
          (if is_CalledProcessError e
           then (([Print Converting, SubprocessRun convert_cmd,
                   Print Blank, Print Rule, Print Conversion_failed,
                   Print (Detail e), Print Rule], Inr 1), w')
           else (([Print Converting, SubprocessRun convert_cmd], Inl e), w')))"

text \<open>
  \<^verbatim>\<open>main\<close> of \<^verbatim>\<open>convert_blazeface.py\<close>. Step 1 (lines 25 to 33) is outside
  every \<^verbatim>\<open>try\<close>: an exception of the download leaves \<^verbatim>\<open>main\<close> at once.
\<close>

definition blazeface_main :: "'w os_iface \<Rightarrow> 'w \<Rightarrow> int outcome \<times> 'w" where
  "blazeface_main os w =
     (if \<not> path_exists os w tflite_path then
        (case subprocess_run os curl_cmd w of
           (Inl e, w1) \<Rightarrow>
             ((banner @ [Print Downloading, SubprocessRun curl_cmd], Inl e), w1)
         | (Inr _, w1) \<Rightarrow>
             (case convert_step os w1 of
                ((log, r), w2) \<Rightarrow>
                  ((banner @ [Print Downloading, SubprocessRun curl_cmd, Print Downloaded]
                      @ log, r), w2)))
      else
        (case convert_step os w of
           ((log, r), w2) \<Rightarrow> ((banner @ log, r), w2)))"

text \<open>
  The block under \<^verbatim>\<open>if __name__ == "__main__"\<close>, the same text in both scripts:
  \<^verbatim>\<open>sys.exit(main())\<close> ends the process with the value \<^verbatim>\<open>main\<close> returned
  (\<^verbatim>\<open>SystemExit\<close> is neither a \<^verbatim>\<open>KeyboardInterrupt\<close> nor an
  \<^verbatim>\<open>Exception\<close>, so no handler of the block takes it); the first handler takes
  \<^verbatim>\<open>KeyboardInterrupt\<close>, the second every \<^verbatim>\<open>Exception\<close>. The result is the
  events of the whole run and the exit code of the process.
\<close>

fun dunder_main :: "int outcome \<Rightarrow> event list \<times> int" where
  "dunder_main (log, Inr rc) = (log, rc)"
| "dunder_main (log, Inl KeyboardInterrupt) = (log @ [Print Cancelled_by_user], 1)"
| "dunder_main (log, Inl e) = (log @ [Print (Error e)], 1)"

definition blazeface_script :: "'w os_iface \<Rightarrow> 'w \<Rightarrow> event list \<times> int" where
  "blazeface_script os w = dunder_main (fst (blazeface_main os w))"


section \<open>Procedure B: \<^verbatim>\<open>convert_minifasnet.py\<close>\<close>

text \<open>
  \<^verbatim>\<open>torch.onnx.export\<close> runs the model once on the sample input to record its graph,
  then writes the file. What the exporter does besides running \<^verbatim>\<open>forward\<close> is
  outside the repository: it may fail before the model is run (a missing package, an
  interrupt) or after (the file cannot be written), and the environment says which.
\<close>

record export_env =
  fails_before_trace :: "py_exception option"
  fails_after_trace :: "py_exception option"

definition torch_onnx_export :: "export_env \<Rightarrow> export_call \<Rightarrow> py_exception + unit" where
  "torch_onnx_export env c =
     (case fails_before_trace env of
        Some e \<Rightarrow> Inl e
      | None \<Rightarrow>
          (case forward (exp_model c) (exp_args c) of
             Inl e \<Rightarrow> Inl e
           | Inr out \<Rightarrow>
               (case fails_after_trace env of
                  Some e \<Rightarrow> Inl e
                | None \<Rightarrow> Inr ())))"

definition output_path :: string where
  "output_path = ''../public/models/onnx/minifasnet_v2.onnx''"

text \<open>\<^verbatim>\<open>torch.randn(1, 3, 80, 80)\<close>\<close>

definition dummy_input :: shape where
  "dummy_input = [1, 3, 80, 80]"

text \<open>Lines 79 to 82: the model as \<^verbatim>\<open>main\<close> builds it.\<close>

definition main_model :: MiniFASNetV2 where
  "main_model = eval_mode (MiniFASNetV2_init 128 (1, 1))"

text \<open>Lines 95 to 106: the arguments of the export.\<close>

definition main_export_call :: export_call where
  "main_export_call =
     \<lparr>exp_model = main_model,
      exp_args = dummy_input,
      exp_f = output_path,
      opset_version = 13,
      input_names = [''input''],
      output_names = [''output''],
      dynamic_axes =
        [(''input'', [(0, ''batch_size'')]),
         (''output'', [(0, ''batch_size'')])]\<rparr>"

text \<open>
  \<^verbatim>\<open>main\<close> of \<^verbatim>\<open>convert_minifasnet.py\<close>. The handler takes every
  \<^verbatim>\<open>Exception\<close>; a \<^verbatim>\<open>KeyboardInterrupt\<close> leaves the function.
\<close>

definition minifasnet_main :: "export_env \<Rightarrow> int outcome" where
  "minifasnet_main env =
     (let start =
            [Print Rule, Print Title_minifasnet, Print Rule, Print Blank,
             Print Creating_model, Print Model_created,
             Print Exporting, OnnxExport main_export_call]
      in case torch_onnx_export env main_export_call of
           Inr _ \<Rightarrow>
             (start @
                [Print Blank, Print Rule, Print Success_minifasnet,
                 Print (Location output_path), Print Blank,
                 Print Note_architecture_only, Print Note_pretrained_weights,
                 Print Note_weights_url, Print Rule],
              Inr 0)
         | Inl e \<Rightarrow>
             (if is_Exception e
              then (start @ [Print Blank, Print Rule, Print (Export_failed e), Print Rule],
                    Inr 1)
              else (start, Inl e)))"

definition minifasnet_script :: "export_env \<Rightarrow> event list \<times> int" where
  "minifasnet_script env = dunder_main (minifasnet_main env)"


section \<open>Test doubles\<close>

text \<open>
  A stand-in for the operating system, used to run the scripts on concrete cases. The
  state says whether the input file is present; the download ends as \<open>fetch\<close> says and
  leaves the file behind when it exits with 0; every other command ends as \<open>conv\<close> says.
\<close>

definition stub_os :: "proc_result \<Rightarrow> proc_result \<Rightarrow> bool os_iface" where
  "stub_os fetch conv =
     \<lparr>path_exists = (\<lambda>present p. p = tflite_path \<and> present),
      run_process = (\<lambda>present argv.
        if argv = curl_cmd then (fetch, present \<or> fetch = Exited 0)
        else (conv, present))\<rparr>"

text \<open>An exporter that fails nowhere outside the model, and one interrupted at once.\<close>

definition quiet_env :: export_env where
  "quiet_env = \<lparr>fails_before_trace = None, fails_after_trace = None\<rparr>"

definition interrupted_env :: export_env where
  "interrupted_env = \<lparr>fails_before_trace = Some KeyboardInterrupt, fails_after_trace = None\<rparr>"


section \<open>Facts about the model\<close>

subsection \<open>The fields set by the constructor\<close>

lemma MiniFASNetV2_init_sel [simp]:
  "conv1 (MiniFASNetV2_init e k) = mk_Conv2d 3 32 (pair 3) 2 1 1"
  "bn1 (MiniFASNetV2_init e k) = mk_BatchNorm2d 32"
  "conv2_dw (MiniFASNetV2_init e k) = mk_Conv2d 32 32 (pair 3) 1 1 32"
  "bn2_dw (MiniFASNetV2_init e k) = mk_BatchNorm2d 32"
  "conv2_sep (MiniFASNetV2_init e k) = mk_Conv2d 32 64 (pair 1) 1 0 1"
  "bn2_sep (MiniFASNetV2_init e k) = mk_BatchNorm2d 64"
  "conv3_dw (MiniFASNetV2_init e k) = mk_Conv2d 64 64 (pair 3) 2 1 64"
  "bn3_dw (MiniFASNetV2_init e k) = mk_BatchNorm2d 64"
  "conv3_sep (MiniFASNetV2_init e k) = mk_Conv2d 64 64 (pair 1) 1 0 1"
  "bn3_sep (MiniFASNetV2_init e k) = mk_BatchNorm2d 64"
  "conv4_dw (MiniFASNetV2_init e k) = mk_Conv2d 64 64 (pair 3) 1 1 64"
  "bn4_dw (MiniFASNetV2_init e k) = mk_BatchNorm2d 64"
  "conv4_sep (MiniFASNetV2_init e k) = mk_Conv2d 64 128 (pair 1) 1 0 1"
  "bn4_sep (MiniFASNetV2_init e k) = mk_BatchNorm2d 128"
  "conv5_dw (MiniFASNetV2_init e k) = mk_Conv2d 128 128 (pair 3) 2 1 128"
  "bn5_dw (MiniFASNetV2_init e k) = mk_BatchNorm2d 128"
  "conv5_sep (MiniFASNetV2_init e k) = mk_Conv2d 128 128 (pair 1) 1 0 1"
  "bn5_sep (MiniFASNetV2_init e k) = mk_BatchNorm2d 128"
  "conv6_dw (MiniFASNetV2_init e k) = mk_Conv2d 128 128 k 1 0 128"
  "bn6_dw (MiniFASNetV2_init e k) = mk_BatchNorm2d 128"
  "conv6_flatten (MiniFASNetV2_init e k) = mk_Conv2d 128 e (pair 1) 1 0 1"
  "fc (MiniFASNetV2_init e k) = \<lparr>in_features = e, out_features = 2\<rparr>"
  "training (MiniFASNetV2_init e k) = True"
  by (simp_all add: MiniFASNetV2_init_def)

subsection \<open>Running a list of statements\<close>

lemma exec_Cons_log:
  "fst (exec m (s # ss) x) =
     (s, x, step m s x) # (case step m s x of Inl e \<Rightarrow> [] | Inr y \<Rightarrow> fst (exec m ss y))"
  by (simp split: sum.splits prod.splits)

lemma exec_Cons_res:
  "snd (exec m (s # ss) x) =
     (case step m s x of Inl e \<Rightarrow> Inl e | Inr y \<Rightarrow> snd (exec m ss y))"
  by (simp split: sum.splits prod.splits)

lemma exec_append_res:
  "snd (exec m (ss @ ts) x) =
     (case snd (exec m ss x) of Inl e \<Rightarrow> Inl e | Inr y \<Rightarrow> snd (exec m ts y))"
proof (induction ss arbitrary: x)
  case Nil
  show ?case by simp
next
  case (Cons s ss)
  show ?case
    by (cases "step m s x") (simp_all add: exec_Cons_res Cons.IH del: exec.simps)
qed

lemma exec_append_log:
  "fst (exec m (ss @ ts) x) =
     (case snd (exec m ss x) of
        Inl e \<Rightarrow> fst (exec m ss x)
      | Inr y \<Rightarrow> fst (exec m ss x) @ fst (exec m ts y))"
proof (induction ss arbitrary: x)
  case Nil
  show ?case by simp
next
  case (Cons s ss)
  show ?case
  proof (cases "step m s x")
    case (Inl e)
    then show ?thesis by (simp add: exec_Cons_res exec_Cons_log del: exec.simps)
  next
    case (Inr y)
    then show ?thesis
      by (cases "snd (exec m ss y)")
         (simp_all add: exec_Cons_res exec_Cons_log Cons.IH del: exec.simps)
  qed
qed

text \<open>The statements entered are an initial segment of the program, all of it when the
  run returns.\<close>

lemma log_callees_prefix: "prefix (map fst (fst (exec m ss x))) ss"
proof (induction ss arbitrary: x)
  case Nil
  show ?case by simp
next
  case (Cons s ss)
  show ?case
    by (cases "step m s x") (simp_all add: exec_Cons_log Cons.IH del: exec.simps)
qed

lemma log_callees_complete:
  "snd (exec m ss x) = Inr y \<Longrightarrow> map fst (fst (exec m ss x)) = ss"
proof (induction ss arbitrary: x)
  case Nil
  show ?case by simp
next
  case (Cons s ss)
  then show ?case
    by (cases "step m s x") (simp_all add: exec_Cons_log exec_Cons_res del: exec.simps)
qed

lemma log_callee_in_body:
  assumes "(s, a, r) \<in> set (fst (exec m ss x))"
  shows "s \<in> set ss"
proof -
  have "s \<in> set (map fst (fst (exec m ss x)))"
    using assms by force
  then show ?thesis
    using log_callees_prefix [of m ss x] set_mono_prefix by blast
qed

text \<open>
  A statement that occurs once in the program has at most one entry in the log: the
  statements before it all returned, it received what they computed, and the log goes
  on behind it exactly when it returned.
\<close>

lemma entry_located:
  assumes "s \<notin> set pre" and "s \<notin> set post"
    and "(s, a, r) \<in> set (fst (exec m (pre @ s # post) x))"
  shows "snd (exec m pre x) = Inr a \<and> r = step m s a \<and>
         fst (exec m (pre @ s # post) x) =
           fst (exec m pre x) @ (s, a, r) #
             (case r of Inl e \<Rightarrow> [] | Inr y \<Rightarrow> fst (exec m post y))"
proof (cases "snd (exec m pre x)")
  case (Inl e)
  then have "(s, a, r) \<in> set (fst (exec m pre x))"
    using assms(3) by (simp add: exec_append_log)
  then show ?thesis
    using assms(1) log_callee_in_body by blast
next
  case (Inr b)
  have notpre: "(s, a, r) \<notin> set (fst (exec m pre x))"
    using assms(1) log_callee_in_body by blast
  have notpost: "\<And>y. (s, a, r) \<notin> set (fst (exec m post y))"
    using assms(2) log_callee_in_body by blast
  have "(s, a, r) \<in> set (fst (exec m (s # post) b))"
    using assms(3) Inr notpre by (simp add: exec_append_log del: exec.simps)
  then have "a = b \<and> r = step m s b"
    using notpost by (cases "step m s b") (simp_all add: exec_Cons_log del: exec.simps)
  then show ?thesis
    using Inr by (simp add: exec_append_log exec_Cons_log del: exec.simps)
qed

subsection \<open>The run of the exported model on the sample input\<close>

lemmas layer_defs =
  mk_Conv2d_def mk_BatchNorm2d_def conv_spatial_def conv_out_def pair_def ReLU_forward_def

lemma main_model_log:
  "forward_log main_model dummy_input =
     [(Call Conv1, [1, 3, 80, 80], Inr [1, 32, 40, 40]),
      (Call Bn1, [1, 32, 40, 40], Inr [1, 32, 40, 40]),
      (Call Relu, [1, 32, 40, 40], Inr [1, 32, 40, 40]),
      (Call Conv2_dw, [1, 32, 40, 40], Inr [1, 32, 40, 40]),
      (Call Bn2_dw, [1, 32, 40, 40], Inr [1, 32, 40, 40]),
      (Call Relu, [1, 32, 40, 40], Inr [1, 32, 40, 40]),
      (Call Conv2_sep, [1, 32, 40, 40], Inr [1, 64, 40, 40]),
      (Call Bn2_sep, [1, 64, 40, 40], Inr [1, 64, 40, 40]),
      (Call Relu, [1, 64, 40, 40], Inr [1, 64, 40, 40]),
      (Call Conv3_dw, [1, 64, 40, 40], Inr [1, 64, 20, 20]),
      (Call Bn3_dw, [1, 64, 20, 20], Inr [1, 64, 20, 20]),
      (Call Relu, [1, 64, 20, 20], Inr [1, 64, 20, 20]),
      (Call Conv3_sep, [1, 64, 20, 20], Inr [1, 64, 20, 20]),
      (Call Bn3_sep, [1, 64, 20, 20], Inr [1, 64, 20, 20]),
      (Call Relu, [1, 64, 20, 20], Inr [1, 64, 20, 20]),
      (Call Conv4_dw, [1, 64, 20, 20], Inr [1, 64, 20, 20]),
      (Call Bn4_dw, [1, 64, 20, 20], Inr [1, 64, 20, 20]),
      (Call Relu, [1, 64, 20, 20], Inr [1, 64, 20, 20]),
      (Call Conv4_sep, [1, 64, 20, 20], Inr [1, 128, 20, 20]),
      (Call Bn5_sep, [1, 128, 20, 20], Inr [1, 128, 20, 20]),
      (Call Relu, [1, 128, 20, 20], Inr [1, 128, 20, 20]),
      (Call Conv5_dw, [1, 128, 20, 20], Inr [1, 128, 10, 10]),
      (Call Bn5_dw, [1, 128, 10, 10], Inr [1, 128, 10, 10]),
      (Call Relu, [1, 128, 10, 10], Inr [1, 128, 10, 10]),
      (Call Conv5_sep, [1, 128, 10, 10], Inr [1, 128, 10, 10]),
      (Call Bn5_sep, [1, 128, 10, 10], Inr [1, 128, 10, 10]),
      (Call Relu, [1, 128, 10, 10], Inr [1, 128, 10, 10]),
      (Call Conv6_dw, [1, 128, 10, 10], Inr [1, 128, 10, 10]),
      (Call Bn6_dw, [1, 128, 10, 10], Inr [1, 128, 10, 10]),
      (Call Relu, [1, 128, 10, 10], Inr [1, 128, 10, 10]),
      (Call Conv6_flatten, [1, 128, 10, 10], Inr [1, 128, 10, 10]),
      (View, [1, 128, 10, 10], Inr [1, 12800]),
      (Call Fc, [1, 12800], Inl (RuntimeError (MatShapes 12800 128)))]"
  by (simp add: forward_log_def forward_body_def main_model_def eval_mode_def
        dummy_input_def layer_defs)

lemma main_model_forward:
  "forward main_model dummy_input = Inl (RuntimeError (MatShapes 12800 128))"
  by (simp add: forward_def forward_body_def main_model_def eval_mode_def
        dummy_input_def layer_defs)


section \<open>The claims about Procedure B\<close>

text \<open>
  C1. The claim: the forward pass of \<^verbatim>\<open>MiniFASNetV2(conv6_kernel=(1, 1))\<close> with the
  default embedding size 128 on an input of shape (1, 3, 80, 80) completes and returns a
  tensor of shape (1, 2). The code does not do that. Three convolutions have stride 2,
  so the 80 by 80 input arrives at \<^verbatim>\<open>conv6_dw\<close> as 10 by 10, the 1 by 1 kernel leaves
  it 10 by 10, the \<^verbatim>\<open>view\<close> flattens 128 channels of 10 by 10 into 12800 features,
  and \<^verbatim>\<open>fc\<close>, a \<^verbatim>\<open>Linear(128, 2)\<close>, raises on them. This holds in training
  mode (the model as constructed) and in evaluation mode (the model as \<^verbatim>\<open>main\<close>
  exports it).
\<close>

theorem forward_80x80_raises:
  "forward ((MiniFASNetV2_init 128 (1, 1))\<lparr>training := t\<rparr>) [1, 3, 80, 80]
     = Inl (RuntimeError (MatShapes 12800 128))"
  by (simp add: forward_def forward_body_def layer_defs)

text \<open>
  C2. The claim: in the model built by \<^verbatim>\<open>main\<close> the map that reaches
  \<^verbatim>\<open>conv6_dw\<close> is covered by its kernel, so that the map behind \<^verbatim>\<open>conv6_dw\<close>
  is 1 by 1. In the code the kernel of \<^verbatim>\<open>conv6_dw\<close> is 1 by 1, the map that reaches
  it on the 80 by 80 sample input is 10 by 10, and the map it returns is 10 by 10.
\<close>

theorem conv6_dw_returns_10x10:
  "kernel_size (conv6_dw main_model) = (1, 1) \<and>
   filter (\<lambda>e. fst e = Call Conv6_dw) (forward_log main_model dummy_input)
     = [(Call Conv6_dw, [1, 128, 10, 10], Inr [1, 128, 10, 10])]"
  by (simp add: main_model_log) (simp add: main_model_def eval_mode_def mk_Conv2d_def)

subsection \<open>Which normalisation follows which convolution\<close>

lemma count_list_prefix: "prefix p q \<Longrightarrow> count_list p x \<le> count_list q x"
  by (auto simp: prefix_def)

lemma count_list_prefix_zero: "prefix p q \<Longrightarrow> x \<notin> set q \<Longrightarrow> count_list p x = 0"
  using set_mono_prefix by (fastforce simp: count_list_0_iff)

lemma bn4_sep_never_called: "Call Bn4_sep \<notin> set (map fst (forward_log m x))"
proof -
  have "Call Bn4_sep \<notin> set forward_body"
    by (simp add: forward_body_def)
  then show ?thesis
    unfolding forward_log_def
    using log_callees_prefix [of m forward_body x] set_mono_prefix by blast
qed

lemma bn5_sep_at_most_twice:
  "count_list (map fst (forward_log m x)) (Call Bn5_sep) \<le> 2"
proof -
  have "count_list forward_body (Call Bn5_sep) = 2"
    by (simp add: forward_body_def)
  then show ?thesis
    unfolding forward_log_def
    using count_list_prefix [OF log_callees_prefix [of m forward_body x], of "Call Bn5_sep"]
    by simp
qed

lemma bn5_sep_follows_conv4_sep:
  assumes "(Call Conv4_sep, a, Inr y) \<in> set (forward_log m x)"
  shows "\<exists>l1 l2. forward_log m x =
           l1 @ [(Call Conv4_sep, a, Inr y), (Call Bn5_sep, y, call m Bn5_sep y)] @ l2"
proof -
  define pre where "pre =
     [Call Conv1, Call Bn1, Call Relu,
      Call Conv2_dw, Call Bn2_dw, Call Relu,
      Call Conv2_sep, Call Bn2_sep, Call Relu,
      Call Conv3_dw, Call Bn3_dw, Call Relu,
      Call Conv3_sep, Call Bn3_sep, Call Relu,
      Call Conv4_dw, Call Bn4_dw, Call Relu]"
  define post where "post =
     [Call Relu,
      Call Conv5_dw, Call Bn5_dw, Call Relu,
      Call Conv5_sep, Call Bn5_sep, Call Relu,
      Call Conv6_dw, Call Bn6_dw, Call Relu,
      Call Conv6_flatten, View, Call Fc]"
  define rest where
    "rest = (case call m Bn5_sep y of Inl e \<Rightarrow> [] | Inr z \<Rightarrow> fst (exec m post z))"
  have body: "forward_body = pre @ Call Conv4_sep # (Call Bn5_sep # post)"
    by (simp add: forward_body_def pre_def post_def)
  have n1: "Call Conv4_sep \<notin> set pre"
    by (simp add: pre_def)
  have n2: "Call Conv4_sep \<notin> set (Call Bn5_sep # post)"
    by (simp add: post_def)
  have mem: "(Call Conv4_sep, a, Inr y)
      \<in> set (fst (exec m (pre @ Call Conv4_sep # (Call Bn5_sep # post)) x))"
    using assms unfolding forward_log_def body .
  have "forward_log m x =
      fst (exec m pre x) @ (Call Conv4_sep, a, Inr y) # fst (exec m (Call Bn5_sep # post) y)"
    using entry_located [OF n1 n2 mem] unfolding forward_log_def body
    by (simp del: exec.simps)
  also have "fst (exec m (Call Bn5_sep # post) y) = (Call Bn5_sep, y, call m Bn5_sep y) # rest"
    unfolding rest_def by (simp add: exec_Cons_log del: exec.simps)
  finally have "forward_log m x =
      fst (exec m pre x) @ [(Call Conv4_sep, a, Inr y), (Call Bn5_sep, y, call m Bn5_sep y)] @ rest"
    by simp
  then show ?thesis by blast
qed

lemma bn5_sep_twice:
  assumes "(Call Conv5_sep, a, Inr y) \<in> set (forward_log m x)"
  shows "count_list (map fst (forward_log m x)) (Call Bn5_sep) = 2"
proof -
  define pre where "pre =
     [Call Conv1, Call Bn1, Call Relu,
      Call Conv2_dw, Call Bn2_dw, Call Relu,
      Call Conv2_sep, Call Bn2_sep, Call Relu,
      Call Conv3_dw, Call Bn3_dw, Call Relu,
      Call Conv3_sep, Call Bn3_sep, Call Relu,
      Call Conv4_dw, Call Bn4_dw, Call Relu,
      Call Conv4_sep, Call Bn5_sep, Call Relu,
      Call Conv5_dw, Call Bn5_dw, Call Relu]"
  define post where "post =
     [Call Relu,
      Call Conv6_dw, Call Bn6_dw, Call Relu,
      Call Conv6_flatten, View, Call Fc]"
  define rest where
    "rest = (case call m Bn5_sep y of Inl e \<Rightarrow> [] | Inr z \<Rightarrow> fst (exec m post z))"
  have body: "forward_body = pre @ Call Conv5_sep # (Call Bn5_sep # post)"
    by (simp add: forward_body_def pre_def post_def)
  have n1: "Call Conv5_sep \<notin> set pre"
    by (simp add: pre_def)
  have n2: "Call Conv5_sep \<notin> set (Call Bn5_sep # post)"
    by (simp add: post_def)
  have mem: "(Call Conv5_sep, a, Inr y)
      \<in> set (fst (exec m (pre @ Call Conv5_sep # (Call Bn5_sep # post)) x))"
    using assms unfolding forward_log_def body .
  note loc = entry_located [OF n1 n2 mem]
  have pre: "map fst (fst (exec m pre x)) = pre"
    using loc log_callees_complete by blast
  have "prefix (map fst rest) post"
    unfolding rest_def using log_callees_prefix [of m post]
    by (cases "call m Bn5_sep y") (simp_all del: exec.simps)
  moreover have "Call Bn5_sep \<notin> set post"
    by (simp add: post_def)
  ultimately have rest0: "count_list (map fst rest) (Call Bn5_sep) = 0"
    by (rule count_list_prefix_zero)
  have "forward_log m x =
      fst (exec m pre x) @ (Call Conv5_sep, a, Inr y) # fst (exec m (Call Bn5_sep # post) y)"
    using loc unfolding forward_log_def body by (simp del: exec.simps)
  also have "fst (exec m (Call Bn5_sep # post) y) = (Call Bn5_sep, y, call m Bn5_sep y) # rest"
    unfolding rest_def by (simp add: exec_Cons_log del: exec.simps)
  finally have "map fst (forward_log m x) = pre @ Call Conv5_sep # Call Bn5_sep # map fst rest"
    using pre by simp
  moreover have "count_list pre (Call Bn5_sep) = 1"
    by (simp add: pre_def)
  ultimately show ?thesis
    using rest0 by simp
qed

text \<open>
  C3. In \<^verbatim>\<open>forward\<close> the normalisation applied to the output of the fourth
  block's pointwise convolution \<^verbatim>\<open>conv4_sep\<close> is \<^verbatim>\<open>bn5_sep\<close>, not
  \<^verbatim>\<open>bn4_sep\<close>. For every model and every input: \<^verbatim>\<open>bn4_sep\<close> is never
  called; whenever \<^verbatim>\<open>conv4_sep\<close> returns, the next call is \<^verbatim>\<open>bn5_sep\<close>,
  with its own parameters, on what \<^verbatim>\<open>conv4_sep\<close> returned; \<^verbatim>\<open>bn5_sep\<close> is
  called at most twice in a pass, and exactly twice in every pass in which
  \<^verbatim>\<open>conv5_sep\<close> returns.
\<close>

theorem block4_normalised_by_bn5_sep:
  "Call Bn4_sep \<notin> set (map fst (forward_log m x)) \<and>
   count_list (map fst (forward_log m x)) (Call Bn5_sep) \<le> 2 \<and>
   ((Call Conv4_sep, a, Inr y) \<in> set (forward_log m x) \<longrightarrow>
      (\<exists>l1 l2. forward_log m x =
         l1 @ [(Call Conv4_sep, a, Inr y),
               (Call Bn5_sep, y, BatchNorm2d_forward (training m) (bn5_sep m) y)] @ l2)) \<and>
   ((Call Conv5_sep, a', Inr y') \<in> set (forward_log m x) \<longrightarrow>
      count_list (map fst (forward_log m x)) (Call Bn5_sep) = 2)"
  using bn4_sep_never_called [of m x] bn5_sep_at_most_twice [of m x]
    bn5_sep_follows_conv4_sep [of a y m x] bn5_sep_twice [of a' y' m x]
  by simp

theorem block4_normalised_by_bn5_sep_witness:
  "(Call Conv4_sep, [1, 64, 20, 20], Inr [1, 128, 20, 20])
      \<in> set (forward_log main_model dummy_input) \<and>
   (Call Conv5_sep, [1, 128, 10, 10], Inr [1, 128, 10, 10])
      \<in> set (forward_log main_model dummy_input) \<and>
   Call Bn4_sep \<notin> set (map fst (forward_log main_model dummy_input)) \<and>
   count_list (map fst (forward_log main_model dummy_input)) (Call Bn5_sep) = 2 \<and>
   (\<exists>l1 l2. forward_log main_model dummy_input =
      l1 @ [(Call Conv4_sep, [1, 64, 20, 20], Inr [1, 128, 20, 20]),
            (Call Bn5_sep, [1, 128, 20, 20],
             BatchNorm2d_forward (training main_model) (bn5_sep main_model) [1, 128, 20, 20])]
         @ l2)"
proof -
  have h4: "(Call Conv4_sep, [1, 64, 20, 20], Inr [1, 128, 20, 20])
      \<in> set (forward_log main_model dummy_input)"
    by (simp add: main_model_log)
  have h5: "(Call Conv5_sep, [1, 128, 10, 10], Inr [1, 128, 10, 10])
      \<in> set (forward_log main_model dummy_input)"
    by (simp add: main_model_log)
  show ?thesis
    using h4 h5
      block4_normalised_by_bn5_sep [of main_model dummy_input
        "[1, 64, 20, 20]" "[1, 128, 20, 20]" "[1, 128, 10, 10]" "[1, 128, 10, 10]"]
    by blast
qed

subsection \<open>Shapes at the misrouted normalisation\<close>

lemma BatchNorm2d_forward_Inr:
  assumes "BatchNorm2d_forward t bn b = Inr z"
  shows "\<exists>n h w. b = [n, num_features bn, h, w] \<and> z = b \<and> \<not> (t \<and> n * h * w = 1)"
  using assms
  by (cases "(t, bn, b)" rule: BatchNorm2d_forward.cases) (auto split: if_splits)

lemma pointwise_conv_Inr:
  assumes "Conv2d_forward (mk_Conv2d i o' (pair 1) 1 0 g) [n, ch, h, w] = Inr y"
  shows "y = [n, o', h, w] \<and> ch = i"
  using assms by (auto simp: layer_defs split: if_splits)

text \<open>
  C9. Applying \<^verbatim>\<open>bn5_sep\<close> to the output of \<^verbatim>\<open>conv4_sep\<close> is dimensionally
  safe. For every embedding size, every kernel of \<^verbatim>\<open>conv6_dw\<close>, both modes and
  every input: \<^verbatim>\<open>conv4_sep\<close> has 128 output channels, \<^verbatim>\<open>bn5_sep\<close> has 128
  features, and whenever the pass reaches the point where \<^verbatim>\<open>conv4_sep\<close> has
  returned, what it returned is 4-D with 128 channels and \<^verbatim>\<open>bn5_sep\<close> accepts it:
  no channel mismatch, and no other exception either.
\<close>

theorem bn5_sep_accepts_conv4_sep_output:
  assumes "(Call Conv4_sep, a, Inr y)
             \<in> set (forward_log ((MiniFASNetV2_init e k)\<lparr>training := t\<rparr>) x)"
  shows "out_channels (conv4_sep ((MiniFASNetV2_init e k)\<lparr>training := t\<rparr>)) = 128 \<and>
         num_features (bn5_sep ((MiniFASNetV2_init e k)\<lparr>training := t\<rparr>)) = 128 \<and>
         (\<exists>n h w. y = [n, 128, h, w]) \<and>
         call ((MiniFASNetV2_init e k)\<lparr>training := t\<rparr>) Bn5_sep y = Inr y"
proof -
  define m where "m = (MiniFASNetV2_init e k)\<lparr>training := t\<rparr>"
  define pre where "pre =
     [Call Conv1, Call Bn1, Call Relu,
      Call Conv2_dw, Call Bn2_dw, Call Relu,
      Call Conv2_sep, Call Bn2_sep, Call Relu,
      Call Conv3_dw, Call Bn3_dw, Call Relu,
      Call Conv3_sep, Call Bn3_sep, Call Relu,
      Call Conv4_dw]"
  define post where "post =
     [Call Bn5_sep, Call Relu,
      Call Conv5_dw, Call Bn5_dw, Call Relu,
      Call Conv5_sep, Call Bn5_sep, Call Relu,
      Call Conv6_dw, Call Bn6_dw, Call Relu,
      Call Conv6_flatten, View, Call Fc]"
  have sel: "conv4_sep m = mk_Conv2d 64 128 (pair 1) 1 0 1" "bn4_dw m = mk_BatchNorm2d 64"
    "bn5_sep m = mk_BatchNorm2d 128" "training m = t"
    by (simp_all add: m_def)
  have body: "forward_body = (pre @ [Call Bn4_dw, Call Relu]) @ Call Conv4_sep # post"
    by (simp add: forward_body_def pre_def post_def)
  have n1: "Call Conv4_sep \<notin> set (pre @ [Call Bn4_dw, Call Relu])"
    by (simp add: pre_def)
  have n2: "Call Conv4_sep \<notin> set post"
    by (simp add: post_def)
  have mem: "(Call Conv4_sep, a, Inr y)
      \<in> set (fst (exec m ((pre @ [Call Bn4_dw, Call Relu]) @ Call Conv4_sep # post) x))"
    using assms unfolding forward_log_def body m_def .
  note loc = entry_located [OF n1 n2 mem]
  from loc have "snd (exec m (pre @ [Call Bn4_dw, Call Relu]) x) = Inr a"
    by blast
  then obtain b where b: "snd (exec m [Call Bn4_dw, Call Relu] b) = Inr a"
    by (cases "snd (exec m pre x)") (simp_all add: exec_append_res del: exec.simps)
  then have "BatchNorm2d_forward t (bn4_dw m) b = Inr a"
    by (simp add: sel(4) ReLU_forward_def split: sum.splits)
  then obtain n h w where a: "a = [n, 64, h, w]" and one: "\<not> (t \<and> n * h * w = 1)"
    using BatchNorm2d_forward_Inr [of t "bn4_dw m" b a]
    by (auto simp: sel(2) mk_BatchNorm2d_def)
  from loc have "Conv2d_forward (conv4_sep m) a = Inr y"
    by simp
  then have y: "y = [n, 128, h, w]"
    using pointwise_conv_Inr [of 64 128 1 n 64 h w y] by (simp add: sel(1) a)
  have "call m Bn5_sep y = Inr y"
    using one by (simp add: y sel mk_BatchNorm2d_def)
  then show ?thesis
    using y unfolding m_def [symmetric] by (simp add: sel mk_Conv2d_def mk_BatchNorm2d_def)
qed

theorem bn5_sep_accepts_conv4_sep_output_witness:
  "(Call Conv4_sep, [1, 64, 20, 20], Inr [1, 128, 20, 20])
      \<in> set (forward_log main_model dummy_input) \<and>
   call main_model Bn5_sep [1, 128, 20, 20] = Inr [1, 128, 20, 20]"
proof -
  have h: "(Call Conv4_sep, [1, 64, 20, 20], Inr [1, 128, 20, 20])
      \<in> set (forward_log ((MiniFASNetV2_init 128 (1, 1))\<lparr>training := False\<rparr>) [1, 3, 80, 80])"
    using main_model_log by (simp add: main_model_def eval_mode_def dummy_input_def)
  show ?thesis
    using h bn5_sep_accepts_conv4_sep_output [OF h]
    by (simp add: main_model_def eval_mode_def dummy_input_def)
qed


section \<open>The claims about Procedure A\<close>

lemma launched_append: "launched (xs @ ys) = launched xs @ launched ys"
  by (induction xs rule: launched.induct) simp_all

lemma launched_banner: "launched banner = []"
  by (simp add: banner_def)

lemma cmds_differ: "curl_cmd \<noteq> convert_cmd"
  by (simp add: curl_cmd_def convert_cmd_def)

text \<open>What step 2 does, by the outcome of the converter.\<close>

lemma convert_step_launched: "launched (fst (fst (convert_step os w))) = [convert_cmd]"
  by (simp add: convert_step_def split: prod.splits sum.splits)

lemma convert_step_nonzero:
  assumes "run_process os w convert_cmd = (Exited rc, w')" and "rc \<noteq> 0"
  shows "convert_step os w =
           (([Print Converting, SubprocessRun convert_cmd,
              Print Blank, Print Rule, Print Conversion_failed,
              Print (Detail (CalledProcessError convert_cmd rc)), Print Rule], Inr 1), w')"
  using assms by (simp add: convert_step_def subprocess_run_def)

lemma convert_step_zero:
  assumes "run_process os w convert_cmd = (Exited 0, w')"
  shows "convert_step os w =
           (([Print Converting, SubprocessRun convert_cmd,
              Print Blank, Print Rule, Print Success_blazeface,
              Print (Location onnx_path), Print Rule], Inr 0), w')"
  using assms by (simp add: convert_step_def subprocess_run_def)

lemma convert_step_result:
  "snd (fst (convert_step os w)) = Inr 0 \<or> snd (fst (convert_step os w)) = Inr 1
   \<or> (\<exists>e. snd (fst (convert_step os w)) = Inl e \<and> \<not> is_CalledProcessError e)"
  by (simp add: convert_step_def split: prod.splits sum.splits)

lemma main_present:
  assumes "path_exists os w tflite_path"
  shows "blazeface_main os w =
           ((banner @ fst (fst (convert_step os w)), snd (fst (convert_step os w))),
            snd (convert_step os w))"
  using assms by (simp add: blazeface_main_def split: prod.splits)

lemma main_absent_fetched:
  assumes "\<not> path_exists os w tflite_path" and "run_process os w curl_cmd = (Exited 0, w1)"
  shows "blazeface_main os w =
           ((banner @ [Print Downloading, SubprocessRun curl_cmd, Print Downloaded]
               @ fst (fst (convert_step os w1)), snd (fst (convert_step os w1))),
            snd (convert_step os w1))"
  using assms by (simp add: blazeface_main_def subprocess_run_def split: prod.splits)

lemma main_absent_fetch_nonzero:
  assumes "\<not> path_exists os w tflite_path" and "run_process os w curl_cmd = (Exited rc, w1)"
    and "rc \<noteq> 0"
  shows "blazeface_main os w =
           ((banner @ [Print Downloading, SubprocessRun curl_cmd],
             Inl (CalledProcessError curl_cmd rc)), w1)"
  using assms by (simp add: blazeface_main_def subprocess_run_def)

lemma main_launched:
  "launched (fst (fst (blazeface_main os w))) =
     (if path_exists os w tflite_path then [convert_cmd]
      else case fst (subprocess_run os curl_cmd w) of
             Inl e \<Rightarrow> [curl_cmd]
           | Inr u \<Rightarrow> [curl_cmd, convert_cmd])"
proof (cases "path_exists os w tflite_path")
  case True
  then show ?thesis
    by (simp add: main_present launched_append launched_banner convert_step_launched)
next
  case False
  obtain r w1 where run: "subprocess_run os curl_cmd w = (r, w1)"
    by (cases "subprocess_run os curl_cmd w")
  show ?thesis
  proof (cases r)
    case (Inl e)
    then show ?thesis
      using False run by (simp add: blazeface_main_def launched_append launched_banner)
  next
    case (Inr u)
    then show ?thesis
      using False run convert_step_launched [of os w1]
      by (auto simp: blazeface_main_def launched_append launched_banner split: prod.splits)
  qed
qed

lemma main_result:
  "snd (fst (blazeface_main os w)) = Inr 0 \<or> snd (fst (blazeface_main os w)) = Inr 1
   \<or> (\<exists>e. snd (fst (blazeface_main os w)) = Inl e)"
proof (cases "path_exists os w tflite_path")
  case True
  then show ?thesis
    using convert_step_result [of os w] by (auto simp: main_present)
next
  case False
  obtain r w1 where run: "subprocess_run os curl_cmd w = (r, w1)"
    by (cases "subprocess_run os curl_cmd w")
  show ?thesis
  proof (cases r)
    case (Inl e)
    then show ?thesis
      using False run by (simp add: blazeface_main_def)
  next
    case (Inr u)
    then show ?thesis
      using False run convert_step_result [of os w1]
      by (auto simp: blazeface_main_def split: prod.splits)
  qed
qed


lemma stub_os_sel:
  "path_exists (stub_os fetch conv) present p = (p = tflite_path \<and> present)"
  "run_process (stub_os fetch conv) present curl_cmd = (fetch, present \<or> fetch = Exited 0)"
  "run_process (stub_os fetch conv) present convert_cmd = (conv, present)"
  using cmds_differ by (auto simp: stub_os_def)

text \<open>
  C4. \<^verbatim>\<open>main\<close> of Procedure A launches the converter with exactly the fixed input
  path, the fixed output path and operator-set version 13: the only commands it ever
  launches are the download and this one, and this one at most once. Whenever the
  converter exits with a non-zero code, be it with the input file present from the start
  or just downloaded, the \<^verbatim>\<open>CalledProcessError\<close> is caught inside \<^verbatim>\<open>main\<close>, the
  diagnostic is printed and \<^verbatim>\<open>main\<close> returns 1; no exception leaves \<^verbatim>\<open>main\<close>.
\<close>

theorem conversion_failure_is_caught:
  "set (launched (fst (fst (blazeface_main os w)))) \<subseteq> {curl_cmd, convert_cmd} \<and>
   count_list (launched (fst (fst (blazeface_main os w)))) convert_cmd \<le> 1 \<and>
   convert_cmd =
     [''python'', ''-m'', ''tf2onnx.convert'',
      ''--tflite'', ''blaze_face_short_range.tflite'',
      ''--output'', ''../public/models/onnx/blazeface.onnx'',
      ''--opset'', ''13''] \<and>
   (path_exists os w tflite_path \<and>
    run_process os w convert_cmd = (Exited rc, w') \<and> rc \<noteq> 0 \<longrightarrow>
      blazeface_main os w =
        ((banner @
          [Print Converting, SubprocessRun convert_cmd,
           Print Blank, Print Rule, Print Conversion_failed,
           Print (Detail (CalledProcessError convert_cmd rc)), Print Rule],
          Inr 1), w')) \<and>
   (\<not> path_exists os w tflite_path \<and>
    run_process os w curl_cmd = (Exited 0, w1) \<and>
    run_process os w1 convert_cmd = (Exited rc, w') \<and> rc \<noteq> 0 \<longrightarrow>
      blazeface_main os w =
        ((banner @ [Print Downloading, SubprocessRun curl_cmd, Print Downloaded] @
          [Print Converting, SubprocessRun convert_cmd,
           Print Blank, Print Rule, Print Conversion_failed,
           Print (Detail (CalledProcessError convert_cmd rc)), Print Rule],
          Inr 1), w'))"
proof -
  have "set (launched (fst (fst (blazeface_main os w)))) \<subseteq> {curl_cmd, convert_cmd}"
    by (simp add: main_launched split: sum.splits)
  moreover have "count_list (launched (fst (fst (blazeface_main os w)))) convert_cmd \<le> 1"
    using cmds_differ by (simp add: main_launched split: sum.splits)
  moreover have "convert_cmd =
     [''python'', ''-m'', ''tf2onnx.convert'',
      ''--tflite'', ''blaze_face_short_range.tflite'',
      ''--output'', ''../public/models/onnx/blazeface.onnx'',
      ''--opset'', ''13'']"
    by (simp add: convert_cmd_def tflite_path_def onnx_path_def)
  ultimately show ?thesis
    by (simp add: main_present main_absent_fetched convert_step_nonzero)
qed

theorem conversion_failure_is_caught_witness:
  "path_exists (stub_os (Exited 0) (Exited 2)) True tflite_path \<and>
   run_process (stub_os (Exited 0) (Exited 2)) True convert_cmd = (Exited 2, True) \<and>
   snd (fst (blazeface_main (stub_os (Exited 0) (Exited 2)) True)) = Inr 1 \<and>
   \<not> path_exists (stub_os (Exited 0) (Exited 2)) False tflite_path \<and>
   run_process (stub_os (Exited 0) (Exited 2)) False curl_cmd = (Exited 0, True) \<and>
   snd (fst (blazeface_main (stub_os (Exited 0) (Exited 2)) False)) = Inr 1 \<and>
   Print Conversion_failed \<in> set (fst (fst (blazeface_main (stub_os (Exited 0) (Exited 2)) False)))"
  using conversion_failure_is_caught [of "stub_os (Exited 0) (Exited 2)" True 2 True]
    conversion_failure_is_caught [of "stub_os (Exited 0) (Exited 2)" False 2 True True]
  by (simp add: stub_os_sel)



text \<open>
  C6. In Procedure A, when the input file is absent and the download exits with a
  non-zero code, the \<^verbatim>\<open>CalledProcessError\<close> leaves \<^verbatim>\<open>main\<close> uncaught, the
  process ends with exit code 1 and the converter is never launched.
\<close>

theorem fetch_failure_aborts:
  assumes "\<not> path_exists os w tflite_path"
    and "run_process os w curl_cmd = (Exited rc, w1)"
    and "rc \<noteq> 0"
  shows "snd (fst (blazeface_main os w)) = Inl (CalledProcessError curl_cmd rc) \<and>
         snd (blazeface_script os w) = 1 \<and>
         launched (fst (blazeface_script os w)) = [curl_cmd] \<and>
         convert_cmd \<notin> set (launched (fst (blazeface_script os w)))"
  using assms cmds_differ [symmetric]
  by (simp add: blazeface_script_def main_absent_fetch_nonzero launched_append launched_banner)

theorem fetch_failure_aborts_witness:
  "\<not> path_exists (stub_os (Exited 22) (Exited 0)) False tflite_path \<and>
   run_process (stub_os (Exited 22) (Exited 0)) False curl_cmd = (Exited 22, False) \<and>
   snd (blazeface_script (stub_os (Exited 22) (Exited 0)) False) = 1 \<and>
   launched (fst (blazeface_script (stub_os (Exited 22) (Exited 0)) False)) = [curl_cmd]"
  using fetch_failure_aborts [of "stub_os (Exited 22) (Exited 0)" False 22 False]
  by (simp add: stub_os_sel)


section \<open>The claims about the exit codes and the export call\<close>

text \<open>
  The export of \<^verbatim>\<open>main\<close> runs the model on the sample input, where \<^verbatim>\<open>forward\<close>
  raises: the export never returns, and \<^verbatim>\<open>main\<close> of Procedure B returns 1 or is
  interrupted.
\<close>

lemma export_of_main_fails:
  "\<exists>e. torch_onnx_export env main_export_call = Inl e"
  by (simp add: torch_onnx_export_def main_export_call_def main_model_forward
        split: option.splits)

lemma minifasnet_main_result:
  "snd (minifasnet_main env) = Inr 1 \<or> snd (minifasnet_main env) = Inl KeyboardInterrupt"
proof -
  obtain e where e: "torch_onnx_export env main_export_call = Inl e"
    using export_of_main_fails by blast
  show ?thesis
    by (cases e) (simp_all add: minifasnet_main_def e Let_def)
qed

lemma dunder_main_code:
  "snd (dunder_main (log, r)) = (case r of Inr rc \<Rightarrow> rc | Inl e \<Rightarrow> 1)"
proof (cases r)
  case (Inl e)
  then show ?thesis by (cases e) simp_all
next
  case (Inr rc)
  then show ?thesis by simp
qed

text \<open>
  C7. The exit code of either script is 0 or 1. It is 0 exactly when \<^verbatim>\<open>main\<close>
  returns 0; so it is 1 when \<^verbatim>\<open>main\<close> returns 1 after a failed conversion or
  export, 1 when an exception leaves \<^verbatim>\<open>main\<close>, and 1 when the exception is a
  \<^verbatim>\<open>KeyboardInterrupt\<close>.
\<close>

theorem exit_codes:
  "snd (blazeface_script os w) \<in> {0, 1} \<and>
   snd (minifasnet_script env) \<in> {0, 1} \<and>
   (snd (blazeface_script os w) = 0) = (snd (fst (blazeface_main os w)) = Inr 0) \<and>
   (snd (minifasnet_script env) = 0) = (snd (minifasnet_main env) = Inr 0) \<and>
   snd (dunder_main (log, Inr 0)) = 0 \<and>
   snd (dunder_main (log, Inr 1)) = 1 \<and>
   snd (dunder_main (log, Inl KeyboardInterrupt)) = 1 \<and>
   snd (dunder_main (log, Inl OtherException)) = 1"
proof -
  obtain la ra where a: "fst (blazeface_main os w) = (la, ra)"
    by (cases "fst (blazeface_main os w)")
  obtain lb rb where b: "minifasnet_main env = (lb, rb)"
    by (cases "minifasnet_main env")
  have "ra = Inr 0 \<or> ra = Inr 1 \<or> (\<exists>e. ra = Inl e)"
    using main_result [of os w] a by simp
  moreover have "rb = Inr 1 \<or> rb = Inl KeyboardInterrupt"
    using minifasnet_main_result [of env] b by simp
  ultimately show ?thesis
    by (auto simp: blazeface_script_def minifasnet_script_def a b dunder_main_code)
qed

theorem exit_codes_witness:
  "snd (blazeface_script (stub_os (Exited 0) (Exited 0)) False) = 0 \<and>
   snd (blazeface_script (stub_os (Exited 0) (Exited 1)) True) = 1 \<and>
   snd (blazeface_script (stub_os (Failed OtherException) (Exited 0)) False) = 1 \<and>
   snd (blazeface_script (stub_os (Exited 0) (Failed KeyboardInterrupt)) True) = 1 \<and>
   snd (minifasnet_script quiet_env) = 1 \<and>
   snd (minifasnet_script interrupted_env) = 1"
proof -
  have "snd (fst (blazeface_main (stub_os (Exited 0) (Exited 0)) False)) = Inr 0"
    by (simp add: main_absent_fetched stub_os_sel convert_step_zero)
  moreover have "snd (fst (blazeface_main (stub_os (Exited 0) (Exited 1)) True)) \<noteq> Inr 0"
    by (simp add: main_present stub_os_sel convert_step_nonzero)
  moreover have
    "snd (fst (blazeface_main (stub_os (Failed OtherException) (Exited 0)) False)) \<noteq> Inr 0"
    by (simp add: blazeface_main_def subprocess_run_def stub_os_sel)
  moreover have
    "snd (fst (blazeface_main (stub_os (Exited 0) (Failed KeyboardInterrupt)) True)) \<noteq> Inr 0"
    by (simp add: main_present stub_os_sel convert_step_def subprocess_run_def)
  moreover have "snd (minifasnet_main quiet_env) \<noteq> Inr 0"
    using minifasnet_main_result [of quiet_env] by auto
  moreover have "snd (minifasnet_main interrupted_env) \<noteq> Inr 0"
    using minifasnet_main_result [of interrupted_env] by auto
  ultimately show ?thesis
    using exit_codes [of "stub_os (Exited 0) (Exited 0)" False quiet_env]
      exit_codes [of "stub_os (Exited 0) (Exited 1)" True interrupted_env]
      exit_codes [of "stub_os (Failed OtherException) (Exited 0)" False quiet_env]
      exit_codes [of "stub_os (Exited 0) (Failed KeyboardInterrupt)" True quiet_env]
    by auto
qed


end
